theory Spec2Isabelle
  imports Complex_Main "HOL-Library.Multiset"
begin

section \<open>JavaScript values used by the front end\<close>

text \<open>
  Names, identifiers and fixed messages are \<^typ>\<open>string\<close>: lists of 8-bit characters.
  The front end only compares them with ASCII literals after \<^verbatim>\<open>toLowerCase\<close>, so the
  model folds the ASCII letters and leaves the characters outside ASCII as they are. No
  character outside ASCII has a lower-case form that is a letter of \<^verbatim>\<open>.pdf\<close>,
  \<^verbatim>\<open>high\<close>, \<^verbatim>\<open>medium\<close>, \<^verbatim>\<open>low\<close> or \<^verbatim>\<open>not_found\<close> alone, so these comparisons
  come out as in JavaScript.
\<close>

definition toLowerChar :: "char \<Rightarrow> char" where
  "toLowerChar c =
     (case map_of (zip ''ABCDEFGHIJKLMNOPQRSTUVWXYZ'' ''abcdefghijklmnopqrstuvwxyz'') c of
        None \<Rightarrow> c
      | Some l \<Rightarrow> l)"

definition toLowerCase :: "string \<Rightarrow> string" where
  "toLowerCase s = map toLowerChar s"

definition endsWith :: "string \<Rightarrow> string \<Rightarrow> bool" where
  "endsWith s suffix =
     (length suffix \<le> length s \<and> drop (length s - length suffix) s = suffix)"

text \<open>
  The text of the chat (what the user types, what the assistant answers) is a JavaScript
  string as it is: the list of its UTF-16 code units, each a number below \<open>65536\<close>.
  \<open>utf16\<close> gives the code units of an ASCII literal.
\<close>

type_synonym code_unit = nat

type_synonym js_text = "code_unit list"

definition utf16 :: "string \<Rightarrow> js_text" where
  "utf16 s = map of_char s"

text \<open>
  \<^verbatim>\<open>String.prototype.trim\<close> strips, at both ends, the white space and the line
  terminators of ECMAScript: TAB, LF, VT, FF, CR, SPACE, NO-BREAK SPACE, the other
  space separators of Unicode (U+1680, U+2000 to U+200A, U+202F, U+205F, U+3000), the
  line and paragraph separators U+2028 and U+2029, and U+FEFF. All of them are single
  code units.
\<close>

definition isWhiteSpace :: "code_unit \<Rightarrow> bool" where
  "isWhiteSpace c =
     (c \<in> set [0x09, 0x0A, 0x0B, 0x0C, 0x0D, 0x20, 0xA0, 0x1680,
                0x2000, 0x2001, 0x2002, 0x2003, 0x2004, 0x2005, 0x2006, 0x2007, 0x2008,
                0x2009, 0x200A, 0x2028, 0x2029, 0x202F, 0x205F, 0x3000, 0xFEFF])"

definition trim :: "js_text \<Rightarrow> js_text" where
  "trim s = rev (dropWhile isWhiteSpace (rev (dropWhile isWhiteSpace s)))"

text \<open>
  A JavaScript number is a finite value, an infinity or NaN. The code only compares
  scores with the integer thresholds of the configuration, and such a comparison of a
  finite double is the comparison of the reals; every comparison with NaN is false.
\<close>

datatype js_number = Num real | PosInfinity | NegInfinity | NaN

fun js_ge :: "js_number \<Rightarrow> real \<Rightarrow> bool" where
  "js_ge (Num x) t = (x \<ge> t)"
| "js_ge PosInfinity t = True"
| "js_ge NegInfinity t = False"
| "js_ge NaN t = False"

section \<open>config.js\<close>

record risk_tier =
  tier_min :: real
  tier_max :: real
  color :: string
  label :: string

definition RISK_HIGH :: risk_tier where
  "RISK_HIGH = \<lparr>tier_min = 60, tier_max = 100, color = ''#ef4444'', label = ''HIGH RISK''\<rparr>"

definition RISK_MEDIUM :: risk_tier where
  "RISK_MEDIUM = \<lparr>tier_min = 30, tier_max = 59, color = ''#f59e0b'', label = ''MEDIUM RISK''\<rparr>"

definition RISK_LOW :: risk_tier where
  "RISK_LOW = \<lparr>tier_min = 0, tier_max = 29, color = ''#10b981'', label = ''LOW RISK''\<rparr>"

text \<open>
  The object \<^verbatim>\<open>RISK_CONFIG\<close>, read by key: a key it does not have gives
  \<^verbatim>\<open>undefined\<close> (what it inherits from \<^verbatim>\<open>Object.prototype\<close> has no \<^verbatim>\<open>color\<close>, so
  such a key behaves as a missing one in \<^verbatim>\<open>getRiskColor\<close>).
\<close>

definition RISK_CONFIG :: "string \<rightharpoonup> risk_tier" where
  "RISK_CONFIG = map_of [(''HIGH'', RISK_HIGH), (''MEDIUM'', RISK_MEDIUM), (''LOW'', RISK_LOW)]"

definition getRiskLevel :: "js_number \<Rightarrow> string" where
  "getRiskLevel score =
     (if js_ge score (tier_min RISK_HIGH) then ''HIGH''
      else if js_ge score (tier_min RISK_MEDIUM) then ''MEDIUM''
      else ''LOW'')"

text \<open>
  \<^verbatim>\<open>RISK_CONFIG[level]?.color || '#6b7280'\<close>: the fallback is taken when the key is
  missing and when the colour is falsy (the empty string).
\<close>

definition getRiskColor :: "string \<Rightarrow> string" where
  "getRiskColor level =
     (case RISK_CONFIG level of
        None \<Rightarrow> ''#6b7280''
      | Some tier \<Rightarrow> (if color tier = [] then ''#6b7280'' else color tier))"

section \<open>dashboard.js\<close>

text \<open>A clause finding as the extraction service returns it (the fields the front end reads).\<close>

record clause =
  clause_type :: string
  found :: bool
  extracted_text :: "string option"
  risk_score :: int
  risk_level :: string
  reliability_flag :: "string option"

text \<open>The extraction result handed to \<^verbatim>\<open>Dashboard.render\<close>.\<close>

record extraction_data =
  filename :: string
  data_risk_level :: string
  high_risk_count :: int
  medium_risk_count :: int
  low_risk_count :: int
  missing_critical_count :: int
  clauses :: "clause list"

text \<open>
  The \<^verbatim>\<open>div.clause-item\<close> built for one clause: its \<^verbatim>\<open>dataset.riskLevel\<close>, whether
  its class list holds \<^verbatim>\<open>hidden\<close>, the badge class and the text shown; \<open>source\<close> is
  the clause the rest of its inner HTML is printed from.
\<close>

record clause_item =
  dataset_riskLevel :: string
  hidden :: bool
  riskBadgeClass :: string
  clauseText :: string
  source :: clause

subsection \<open>The page\<close>

text \<open>
  A node of the chat panel \<^verbatim>\<open>#chatMessages\<close>: the welcome block, a message (its
  sender, its formatted text and the sources printed under it) or the typing indicator.
\<close>

datatype chat_node =
    Welcome
  | Message string js_text "string list"
  | TypingIndicator

text \<open>
  The elements of the page that the code reads and writes. An element looked up with
  \<^verbatim>\<open>getElementById\<close> and guarded by a null test is an option: \<open>None\<close> when the page
  has no such element. The four count elements are written without a guard.
\<close>

record dom_tree =
  clausesList :: "clause_item list option"
  overallRiskLevel :: "(string \<times> string) option"
  highRiskCount :: int
  mediumRiskCount :: int
  lowRiskCount :: int
  missingCriticalCount :: int
  fileInput :: "string option"
  chatInput :: "js_text option"
  sendBtn :: "bool option"
  chatMessages :: "chat_node list option"

subsection \<open>Rendering, sorting and filtering\<close>

definition truncateText :: "string \<Rightarrow> nat \<Rightarrow> string" where
  "truncateText text maxLength =
     (if text = [] \<or> length text \<le> maxLength then text else take maxLength text @ ''...'')"

text \<open>
  \<^verbatim>\<open>Array.prototype.sort\<close> with a comparator: a stable sort, modelled as the insertion
  sort that puts an element before the first one it does not compare greater than. A
  comparator result of NaN (\<open>None\<close>) counts as \<open>0\<close>.
\<close>

definition SortCompare :: "('a \<Rightarrow> 'a \<Rightarrow> int option) \<Rightarrow> 'a \<Rightarrow> 'a \<Rightarrow> int" where
  "SortCompare comparefn x y = (case comparefn x y of None \<Rightarrow> 0 | Some v \<Rightarrow> v)"

fun insertSorted :: "('a \<Rightarrow> 'a \<Rightarrow> int option) \<Rightarrow> 'a \<Rightarrow> 'a list \<Rightarrow> 'a list" where
  "insertSorted comparefn x [] = [x]"
| "insertSorted comparefn x (y # ys) =
     (if SortCompare comparefn x y \<le> 0 then x # y # ys
      else y # insertSorted comparefn x ys)"

definition Array_sort :: "('a \<Rightarrow> 'a \<Rightarrow> int option) \<Rightarrow> 'a list \<Rightarrow> 'a list" where
  "Array_sort comparefn xs = foldr (insertSorted comparefn) xs []"

definition order :: "string \<rightharpoonup> int" where
  "order = map_of [(''HIGH'', 0), (''MEDIUM'', 1), (''LOW'', 2), (''NOT_FOUND'', 3)]"

text \<open>\<^verbatim>\<open>order[a.risk_level] - order[b.risk_level]\<close>: NaN when a level is not a key.\<close>

definition compareClauses :: "clause \<Rightarrow> clause \<Rightarrow> int option" where
  "compareClauses a b =
     (case (order (risk_level a), order (risk_level b)) of
        (Some x, Some y) \<Rightarrow> Some (x - y)
      | _ \<Rightarrow> None)"

text \<open>The position of a clause's level in the display order (4 for a level that is no key).\<close>

definition rankOf :: "clause \<Rightarrow> int" where
  "rankOf c = (case order (risk_level c) of Some n \<Rightarrow> n | None \<Rightarrow> 4)"

definition sortedClauses :: "clause list \<Rightarrow> clause list" where
  "sortedClauses cs = Array_sort compareClauses cs"

definition createClauseElement :: "clause \<Rightarrow> clause_item" where
  "createClauseElement c =
     \<lparr>dataset_riskLevel = toLowerCase (risk_level c),
      hidden = False,
      riskBadgeClass =
        (if risk_level c = ''HIGH'' then ''risk-high''
         else if risk_level c = ''MEDIUM'' then ''risk-medium''
         else if risk_level c = ''LOW'' then ''risk-low''
         else ''risk-not-found''),
      clauseText =
        (case extracted_text c of
           Some t \<Rightarrow> (if found c \<and> t \<noteq> [] then truncateText t 200
                      else ''Clause not found in contract'')
         | None \<Rightarrow> ''Clause not found in contract''),
      source = c\<rparr>"

definition renderClausesList :: "clause list \<Rightarrow> dom_tree \<Rightarrow> dom_tree" where
  "renderClausesList cs d =
     (case clausesList d of
        None \<Rightarrow> d
      | Some old \<Rightarrow> d\<lparr>clausesList := Some (map createClauseElement (sortedClauses cs))\<rparr>)"

text \<open>
  \<^verbatim>\<open>renderRiskOverview\<close>: the level text with its colour and the four counts (the
  score text and the gauge animation are left out: nothing below reads them).
\<close>

definition renderRiskOverview :: "extraction_data \<Rightarrow> dom_tree \<Rightarrow> dom_tree" where
  "renderRiskOverview data d =
     d\<lparr>overallRiskLevel :=
          map_option (\<lambda>old. (data_risk_level data, getRiskColor (data_risk_level data)))
            (overallRiskLevel d),
       highRiskCount := high_risk_count data,
       mediumRiskCount := medium_risk_count data,
       lowRiskCount := low_risk_count data,
       missingCriticalCount := missing_critical_count data\<rparr>"

definition render :: "extraction_data \<Rightarrow> dom_tree \<Rightarrow> dom_tree" where
  "render data d = renderClausesList (clauses data) (renderRiskOverview data d)"

text \<open>
  \<^verbatim>\<open>filterClauses\<close> visits every \<^verbatim>\<open>.clause-item\<close> of the page; the only such elements
  are the children of \<^verbatim>\<open>#clausesList\<close>. \<^verbatim>\<open>classList.toggle('hidden', b)\<close> sets the
  class to \<open>b\<close>; a filter the chain does not name changes nothing.
\<close>

definition filterItem :: "string \<Rightarrow> clause_item \<Rightarrow> clause_item" where
  "filterItem filter_tag item =
     (let riskLevel = dataset_riskLevel item in
      if filter_tag = ''all'' then item\<lparr>hidden := False\<rparr>
      else if filter_tag = ''high'' then item\<lparr>hidden := (riskLevel \<noteq> ''high'')\<rparr>
      else if filter_tag = ''medium'' then item\<lparr>hidden := (riskLevel \<noteq> ''medium'')\<rparr>
      else if filter_tag = ''low'' then item\<lparr>hidden := (riskLevel \<noteq> ''low'')\<rparr>
      else if filter_tag = ''missing'' then item\<lparr>hidden := (riskLevel \<noteq> ''not_found'')\<rparr>
      else item)"

definition filterClauses :: "string \<Rightarrow> dom_tree \<Rightarrow> dom_tree" where
  "filterClauses filter_tag d =
     d\<lparr>clausesList := map_option (map (filterItem filter_tag)) (clausesList d)\<rparr>"

text \<open>What the page shows: the clauses of the list in order, and those not hidden.\<close>

definition displays :: "dom_tree \<Rightarrow> clause list \<Rightarrow> bool" where
  "displays d cs =
     (case clausesList d of
        None \<Rightarrow> False
      | Some items \<Rightarrow> map (\<lambda>item. item\<lparr>hidden := False\<rparr>) items = map createClauseElement cs)"

definition visibleClauses :: "dom_tree \<Rightarrow> clause list" where
  "visibleClauses d =
     (case clausesList d of
        None \<Rightarrow> []
      | Some items \<Rightarrow> map source (filter (\<lambda>item. \<not> hidden item) items))"

text \<open>The display order of the risk levels: \<open>shownBefore a b\<close> when group \<open>a\<close> comes first.\<close>

definition shownBefore :: "string \<Rightarrow> string \<Rightarrow> bool" where
  "shownBefore a b =
     ((a, b) \<in> set [(''HIGH'', ''MEDIUM''), (''HIGH'', ''LOW''), (''HIGH'', ''NOT_FOUND''),
                     (''MEDIUM'', ''LOW''), (''MEDIUM'', ''NOT_FOUND''), (''LOW'', ''NOT_FOUND'')])"

definition riskLevels :: "string set" where
  "riskLevels = {''HIGH'', ''MEDIUM'', ''LOW'', ''NOT_FOUND''}"

section \<open>app.js\<close>

record file_obj =
  file_name :: string
  file_size :: nat

text \<open>What the document service answers to an upload.\<close>

record upload_result =
  doc_id :: string
  uploaded_filename :: string
  num_pages :: nat

record chat_response =
  answer :: js_text
  sources :: "(string \<times> string) list"

text \<open>
  The calls the front end awaits. A call of the \<^verbatim>\<open>API\<close> object that throws is
  \<open>Inl\<close> of the error message.
\<close>

record backend =
  uploadFile :: "file_obj \<Rightarrow> string + upload_result"
  extractClauses :: "string \<Rightarrow> string + extraction_data"

text \<open>
  What a handler does besides writing state, in the order it does it: toasts, section
  switches, progress updates, timers, and the requests sent to the services.
\<close>

datatype event =
    ToastError string
  | ToastSuccess string
  | ToastInfo string
  | ShowSection string
  | UpdateProcessingStep nat
  | UpdateProcessingInfo string "nat option"
  | StartRotation
  | StopRotation
  | Delay nat
  | SetTimeoutShowSection nat string
  | DashboardRender
  | UploadRequest file_obj
  | ExtractRequest string
  | ChatRequest "string option" "string option" js_text
  | ClearSessionRequest string

fun isNetworkRequest :: "event \<Rightarrow> bool" where
  "isNetworkRequest (UploadRequest f) = True"
| "isNetworkRequest (ExtractRequest d) = True"
| "isNetworkRequest (ChatRequest s d q) = True"
| "isNetworkRequest (ClearSessionRequest s) = True"
| "isNetworkRequest e = False"

record app_state =
  currentDocId :: "string option"
  currentSessionId :: "string option"
  extractionData :: "extraction_data option"
  currentFilter :: string

text \<open>
  The state the handlers share: \<^verbatim>\<open>APP_STATE\<close>, \<^verbatim>\<open>Chat.isProcessing\<close>, the page,
  and the events so far.
\<close>

record world =
  APP_STATE :: app_state
  isProcessing :: bool
  document :: dom_tree
  trace :: "event list"

definition emit :: "event list \<Rightarrow> world \<Rightarrow> world" where
  "emit evs w = w\<lparr>trace := trace w @ evs\<rparr>"

definition newEvents :: "world \<Rightarrow> world \<Rightarrow> event list" where
  "newEvents w w' = drop (length (trace w)) (trace w')"

text \<open>A string or \<^verbatim>\<open>null\<close> in a condition: \<^verbatim>\<open>null\<close> and the empty string are falsy.\<close>

definition falsy :: "string option \<Rightarrow> bool" where
  "falsy v = (case v of None \<Rightarrow> True | Some s \<Rightarrow> s = [])"

function decimal :: "nat \<Rightarrow> string" where
  "decimal n = (if n < 10 then [''0123456789'' ! n]
                else decimal (n div 10) @ [''0123456789'' ! (n mod 10)])"
  by pat_completeness auto
termination
  by (relation "measure id") auto

declare decimal.simps [simp del]

text \<open>
  \<^verbatim>\<open>'session_' + Date.now() + '_' + Math.random().toString(36).substr(2, 9)\<close>, with the
  clock value and the string of the random number as arguments.
\<close>

definition generateSessionId :: "nat \<Rightarrow> string \<Rightarrow> string" where
  "generateSessionId now random36 = ''session_'' @ decimal now @ ''_'' @ take 9 (drop 2 random36)"

text \<open>
  \<^verbatim>\<open>updateProcessingStep\<close> writes the width of the progress bar, the class of each of
  the five step elements and the status badge. The width is \<^verbatim>\<open>(stepNumber / 5) * 100\<close>,
  taken over the reals.
\<close>

record progress_view =
  width :: real
  stepClasses :: "string list"
  statusText :: string

definition updateProcessingStep :: "nat \<Rightarrow> progress_view" where
  "updateProcessingStep stepNumber =
     \<lparr>width = (real stepNumber / 5) * 100,
      stepClasses =
        map (\<lambda>i. if i < stepNumber then ''completed''
                  else if i = stepNumber then ''active'' else [])
          [1 ..< 6],
      statusText = (if stepNumber = 5 then ''Complete'' else ''Processing'')\<rparr>"

fun stepOf :: "event \<Rightarrow> nat option" where
  "stepOf (UpdateProcessingStep n) = Some n"
| "stepOf e = None"

definition stepsEmitted :: "event list \<Rightarrow> nat list" where
  "stepsEmitted evs = List.map_filter stepOf evs"

definition percentagesReported :: "event list \<Rightarrow> real list" where
  "percentagesReported evs = map (\<lambda>n. width (updateProcessingStep n)) (stepsEmitted evs)"

text \<open>The \<^verbatim>\<open>catch\<close> block of \<^verbatim>\<open>handleFileUpload\<close>.\<close>

definition catchUploadError :: "string \<Rightarrow> world \<Rightarrow> world" where
  "catchUploadError message w =
     emit [StopRotation,
           ToastError (if message = [] then ''An error occurred during processing'' else message),
           SetTimeoutShowSection 3000 ''upload-section''] w"

text \<open>
  One run of \<^verbatim>\<open>handleFileUpload\<close>, from the call to the end of its last continuation,
  with the answers of the two services taken from \<open>api\<close>.
\<close>

definition handleFileUpload :: "backend \<Rightarrow> file_obj \<Rightarrow> world \<Rightarrow> world" where
  "handleFileUpload api f w =
     (if \<not> endsWith (toLowerCase (file_name f)) ''.pdf'' then
        emit [ToastError ''Please upload a PDF file''] w
      else if file_size f > 10 * 1024 * 1024 then
        emit [ToastError ''File size must be less than 10MB''] w
      else
        let w1 = emit [ShowSection ''processing-section'',
                       UpdateProcessingStep 0,
                       UpdateProcessingInfo (file_name f) None,
                       StartRotation,
                       UpdateProcessingStep 1,
                       UploadRequest f] w
        in (case uploadFile api f of
             Inl message \<Rightarrow> catchUploadError message w1
           | Inr uploadResult \<Rightarrow>
               let w2 = w1\<lparr>APP_STATE := (APP_STATE w1)\<lparr>currentDocId := Some (doc_id uploadResult)\<rparr>\<rparr>;
                   w3 = emit [UpdateProcessingInfo (uploaded_filename uploadResult)
                                (Some (num_pages uploadResult)),
                              ToastSuccess ''File uploaded successfully'',
                              Delay 1000,
                              UpdateProcessingStep 2,
                              Delay 2000,
                              UpdateProcessingStep 3,
                              ExtractRequest (doc_id uploadResult)] w2
               in (case extractClauses api (doc_id uploadResult) of
                    Inl message \<Rightarrow> catchUploadError message w3
                  | Inr extractionResult \<Rightarrow>
                      let w4 = w3\<lparr>APP_STATE := (APP_STATE w3)\<lparr>extractionData := Some extractionResult\<rparr>\<rparr>;
                          w5 = emit [UpdateProcessingStep 4,
                                     Delay 2000,
                                     UpdateProcessingStep 5,
                                     Delay 1000,
                                     StopRotation,
                                     ToastSuccess ''Analysis complete!'',
                                     ShowSection ''dashboard-section'',
                                     DashboardRender] w4
                      in w5\<lparr>document := render extractionResult (document w5)\<rparr>)))"

definition resetApplication :: "nat \<Rightarrow> string \<Rightarrow> world \<Rightarrow> world" where
  "resetApplication now random36 w =
     emit [ShowSection ''upload-section'', ToastInfo ''Ready for new analysis'']
       (w\<lparr>APP_STATE := (APP_STATE w)
             \<lparr>currentDocId := None,
              extractionData := None,
              currentSessionId := Some (generateSessionId now random36),
              currentFilter := ''all''\<rparr>,
          document := (document w)\<lparr>fileInput := map_option (\<lambda>old. []) (fileInput (document w))\<rparr>\<rparr>)"

text \<open>
  The claim on the file name as the specification words it: the name ends in
  \<^verbatim>\<open>.pdf\<close>, in any mix of upper and lower case.
\<close>

definition hasPdfExtension :: "string \<Rightarrow> bool" where
  "hasPdfExtension name =
     (drop (length name - 4) name \<in>
        set [''.pdf'', ''.pdF'', ''.pDf'', ''.pDF'', ''.Pdf'', ''.PdF'', ''.PDf'', ''.PDF''])"

section \<open>The chat module\<close>

definition formatMessageText :: "js_text \<Rightarrow> js_text" where
  "formatMessageText text = concat (map (\<lambda>c. if c = 0x0A then utf16 ''<br>'' else [c]) text)"

definition renderSource :: "string \<times> string \<Rightarrow> string" where
  "renderSource s =
     (if fst s \<noteq> [] then fst s @ '' ('' @ snd s @ '')'' else ''Contract text'')"

text \<open>
  \<^verbatim>\<open>addMessage\<close> removes the welcome block, if there is one, and appends the message;
  the sources are printed for a message of the assistant only.
\<close>

definition addMessage :: "js_text \<Rightarrow> string \<Rightarrow> (string \<times> string) list \<Rightarrow> dom_tree \<Rightarrow> dom_tree" where
  "addMessage text sender srcs d =
     (case chatMessages d of
        None \<Rightarrow> d
      | Some nodes \<Rightarrow>
          d\<lparr>chatMessages :=
              Some (remove1 Welcome nodes @
                    [Message sender (formatMessageText text)
                       (if sender = ''ai'' then map renderSource srcs else [])])\<rparr>)"

definition addTypingIndicator :: "dom_tree \<Rightarrow> string option \<times> dom_tree" where
  "addTypingIndicator d =
     (case chatMessages d of
        None \<Rightarrow> (None, d)
      | Some nodes \<Rightarrow> (Some ''typing-indicator'', d\<lparr>chatMessages := Some (nodes @ [TypingIndicator])\<rparr>))"

definition removeTypingIndicator :: "string option \<Rightarrow> dom_tree \<Rightarrow> dom_tree" where
  "removeTypingIndicator typingId d =
     (if typingId = Some ''typing-indicator''
      then d\<lparr>chatMessages := map_option (remove1 TypingIndicator) (chatMessages d)\<rparr>
      else d)"

text \<open>
  \<^verbatim>\<open>sendMessage\<close> up to its \<^verbatim>\<open>await\<close>. The second component is \<open>None\<close> when the
  call has returned, and \<open>Some typingId\<close> when the request is sent and the call waits
  for the answer, holding its local \<^verbatim>\<open>typingId\<close>.
\<close>

definition sendMessage :: "world \<Rightarrow> world \<times> string option option" where
  "sendMessage w =
     (case (chatInput (document w), sendBtn (document w)) of
        (Some val, Some disabled) \<Rightarrow>
          let query = trim val in
          if query = [] then (emit [ToastError ''Please enter a question''] w, None)
          else if falsy (currentDocId (APP_STATE w)) then
            (emit [ToastError ''No document loaded''] w, None)
          else if isProcessing w then (w, None)
          else
            let d1 = (document w)\<lparr>sendBtn := Some True\<rparr>;
                d2 = addMessage query ''user'' [] d1;
                d3 = d2\<lparr>chatInput := Some []\<rparr>;
                (typingId, d4) = addTypingIndicator d3
            in (emit [ChatRequest (currentSessionId (APP_STATE w)) (currentDocId (APP_STATE w)) query]
                  (w\<lparr>isProcessing := True, document := d4\<rparr>),
                Some typingId)
      | _ \<Rightarrow> (w, None))"

text \<open>
  The rest of \<^verbatim>\<open>sendMessage\<close>, run when the request settles: the \<^verbatim>\<open>try\<close> body
  after the answer or the \<^verbatim>\<open>catch\<close> block after an error, then the \<^verbatim>\<open>finally\<close>
  block. An answer has the fields of the service contract, \<^verbatim>\<open>answer\<close> and
  \<^verbatim>\<open>sources\<close>.
\<close>

definition sendMessage_resume :: "string option \<Rightarrow> string + chat_response \<Rightarrow> world \<Rightarrow> world" where
  "sendMessage_resume typingId response w =
     (let w1 = (case response of
                  Inr r \<Rightarrow>
                    w\<lparr>document := addMessage (answer r) ''ai'' (sources r)
                                    (removeTypingIndicator typingId (document w))\<rparr>
                | Inl message \<Rightarrow>
                    (emit [ToastError (''Failed to get response: '' @ message)] w)
                      \<lparr>document :=
                         addMessage
                           (utf16
                              ''Sorry, I encountered an error processing your question. Please try again.'')
                           ''ai'' [] (removeTypingIndicator typingId (document w))\<rparr>)
      in w1\<lparr>isProcessing := False,
            document := (document w1)\<lparr>sendBtn := map_option (\<lambda>old. False) (sendBtn (document w1))\<rparr>\<rparr>)"

text \<open>
  \<^verbatim>\<open>clearChat\<close> up to its \<^verbatim>\<open>await\<close>: \<open>True\<close> when the deletion request is sent and
  the call waits for its outcome.
\<close>

definition clearChat :: "world \<Rightarrow> world \<times> bool" where
  "clearChat w =
     (case currentSessionId (APP_STATE w) of
        None \<Rightarrow> (w, False)
      | Some sessionId \<Rightarrow>
          if sessionId = [] then (w, False)
          else (emit [ClearSessionRequest sessionId] w, True))"

definition clearChat_resume :: "string + unit \<Rightarrow> world \<Rightarrow> world" where
  "clearChat_resume response w =
     (case response of
        Inr ack \<Rightarrow>
          emit [ToastSuccess ''Chat cleared'']
            (w\<lparr>document := (document w)
                  \<lparr>chatMessages := map_option (\<lambda>old. [Welcome]) (chatMessages (document w))\<rparr>\<rparr>)
      | Inl err \<Rightarrow> emit [ToastError ''Failed to clear chat''] w)"

section \<open>Concrete inputs\<close>

definition clauseOf :: "string \<Rightarrow> bool \<Rightarrow> string \<Rightarrow> clause" where
  "clauseOf ty fnd lvl =
     \<lparr>clause_type = ty, found = fnd,
      extracted_text = (if fnd then Some ''The party shall ...'' else None),
      risk_score = 0, risk_level = lvl, reliability_flag = None\<rparr>"

definition exampleClauses :: "clause list" where
  "exampleClauses =
     [clauseOf ''Governing Law'' True ''LOW'',
      clauseOf ''Cap On Liability'' False ''NOT_FOUND'',
      clauseOf ''Indemnity'' True ''HIGH'',
      clauseOf ''Audit Rights'' True ''MEDIUM'',
      clauseOf ''Non-Compete'' True ''HIGH'']"

definition examplePage :: dom_tree where
  "examplePage =
     \<lparr>clausesList = Some [], overallRiskLevel = Some ([], []),
      highRiskCount = 0, mediumRiskCount = 0, lowRiskCount = 0, missingCriticalCount = 0,
      fileInput = Some [], chatInput = Some [], sendBtn = Some False,
      chatMessages = Some [Welcome]\<rparr>"

definition exampleWorld :: world where
  "exampleWorld =
     \<lparr>APP_STATE = \<lparr>currentDocId = None, currentSessionId = Some ''session_1_abc'',
                   extractionData = None, currentFilter = ''all''\<rparr>,
      isProcessing = False, document = examplePage, trace = []\<rparr>"

definition exampleResult :: extraction_data where
  "exampleResult =
     \<lparr>filename = ''msa.pdf'', data_risk_level = ''HIGH'',
      high_risk_count = 2, medium_risk_count = 1, low_risk_count = 1,
      missing_critical_count = 1, clauses = exampleClauses\<rparr>"

definition exampleBackend :: backend where
  "exampleBackend =
     \<lparr>uploadFile = (\<lambda>f. Inr \<lparr>doc_id = ''d1'', uploaded_filename = file_name f, num_pages = 12\<rparr>),
      extractClauses = (\<lambda>d. Inr exampleResult)\<rparr>"

text \<open>A world with a document loaded, a question typed and one earlier exchange shown.\<close>

definition chattingWorld :: world where
  "chattingWorld =
     exampleWorld
       \<lparr>APP_STATE := (APP_STATE exampleWorld)\<lparr>currentDocId := Some ''d1''\<rparr>,
        document := examplePage
          \<lparr>chatInput := Some (utf16 '' Is there a liability cap? ''),
           chatMessages :=
             Some [Message ''user'' (utf16 ''Hello'') [], Message ''ai'' (utf16 ''Hi'') []]\<rparr>\<rparr>"

text \<open>
  The same world after the question is sent and while its request is outstanding, with
  the next question already typed.
\<close>

definition pendingWorld :: world where
  "pendingWorld =
     (let w1 = fst (sendMessage chattingWorld)
      in w1\<lparr>document := (document w1)\<lparr>chatInput := Some (utf16 ''And the notice period?'')\<rparr>\<rparr>)"

section \<open>Risk classification\<close>

text \<open>
  C1. \<^const>\<open>getRiskLevel\<close> tests HIGH, then MEDIUM, then LOW with inclusive lower
  bounds 60 and 30: 60 and 100 are HIGH, 59 and 30 are MEDIUM, 29 and 0 are LOW. It is
  total: every number, the infinities and NaN included, gets one of the three levels,
  a score below 0 is LOW and a score above 100 is HIGH.
\<close>

theorem getRiskLevel_bands:
  "getRiskLevel (Num 60) = ''HIGH'' \<and> getRiskLevel (Num 59) = ''MEDIUM'' \<and>
   getRiskLevel (Num 30) = ''MEDIUM'' \<and> getRiskLevel (Num 29) = ''LOW'' \<and>
   getRiskLevel (Num 0) = ''LOW'' \<and> getRiskLevel (Num 100) = ''HIGH'' \<and>
   getRiskLevel (Num x) =
     (if 60 \<le> x then ''HIGH'' else if 30 \<le> x then ''MEDIUM'' else ''LOW'') \<and>
   getRiskLevel s \<in> {''HIGH'', ''MEDIUM'', ''LOW''} \<and>
   (x < 0 \<longrightarrow> getRiskLevel (Num x) = ''LOW'') \<and>
   (100 < x \<longrightarrow> getRiskLevel (Num x) = ''HIGH'') \<and>
   getRiskLevel NegInfinity = ''LOW'' \<and> getRiskLevel PosInfinity = ''HIGH''"
  by (cases s) (simp_all add: getRiskLevel_def RISK_HIGH_def RISK_MEDIUM_def)

theorem getRiskLevel_bands_witness:
  "getRiskLevel (Num (-5)) = ''LOW'' \<and> getRiskLevel (Num 59.5) = ''MEDIUM'' \<and>
   getRiskLevel NaN = ''LOW''"
proof -
  have "getRiskLevel (Num (-5)) = ''LOW''"
    using getRiskLevel_bands [of "-5" NaN] by simp
  moreover have "getRiskLevel (Num 59.5) = ''MEDIUM''"
    using getRiskLevel_bands [of "59.5" NaN] by simp
  moreover have "getRiskLevel NaN = ''LOW''"
    by (simp add: getRiskLevel_def)
  ultimately show ?thesis by simp
qed

text \<open>
  C10. \<^const>\<open>getRiskColor\<close> is total: HIGH, MEDIUM and LOW get the colour configured
  for the tier, and every other level string, NOT_FOUND included, gets the fallback
  grey \<^verbatim>\<open>#6b7280\<close>.
\<close>

theorem getRiskColor_total:
  "getRiskColor ''HIGH'' = ''#ef4444'' \<and> getRiskColor ''MEDIUM'' = ''#f59e0b'' \<and>
   getRiskColor ''LOW'' = ''#10b981'' \<and>
   getRiskColor ''HIGH'' = color RISK_HIGH \<and> getRiskColor ''MEDIUM'' = color RISK_MEDIUM \<and>
   getRiskColor ''LOW'' = color RISK_LOW \<and>
   (level \<notin> {''HIGH'', ''MEDIUM'', ''LOW''} \<longrightarrow> getRiskColor level = ''#6b7280'')"
  by (simp add: getRiskColor_def RISK_CONFIG_def RISK_HIGH_def RISK_MEDIUM_def RISK_LOW_def)

theorem getRiskColor_total_witness:
  "getRiskColor ''NOT_FOUND'' = ''#6b7280''"
  using getRiskColor_total [of "''NOT_FOUND''"] by simp

section \<open>Sorting the clauses for display\<close>

lemma SortCompare_rank:
  "risk_level x \<in> riskLevels \<Longrightarrow> risk_level y \<in> riskLevels \<Longrightarrow>
   (SortCompare compareClauses x y \<le> 0) = (rankOf x \<le> rankOf y)"
  by (auto simp: SortCompare_def compareClauses_def rankOf_def order_def riskLevels_def)

lemma insertSorted_insort_key:
  "risk_level x \<in> riskLevels \<Longrightarrow> \<forall>y\<in>set ys. risk_level y \<in> riskLevels \<Longrightarrow>
   insertSorted compareClauses x ys = insort_key rankOf x ys"
  by (induction ys) (simp_all add: SortCompare_rank)

lemma sortedClauses_sort_key:
  "\<forall>c\<in>set cs. risk_level c \<in> riskLevels \<Longrightarrow> sortedClauses cs = sort_key rankOf cs"
  by (induction cs) (simp_all add: sortedClauses_def Array_sort_def insertSorted_insort_key)

lemma shownBefore_rank:
  "shownBefore (risk_level a) (risk_level b) \<Longrightarrow> rankOf a < rankOf b"
  by (auto simp: shownBefore_def rankOf_def order_def)

lemma sorted_rank_precedes:
  assumes "sorted (map rankOf r)" "i < length r" "j < length r"
    "shownBefore (risk_level (r ! i)) (risk_level (r ! j))"
  shows "i < j"
proof (rule ccontr)
  assume "\<not> i < j"
  then have "j \<le> i" by simp
  with assms(1,2) have "map rankOf r ! j \<le> map rankOf r ! i"
    by (simp add: sorted_iff_nth_mono del: nth_map)
  with assms(2,3) have "rankOf (r ! j) \<le> rankOf (r ! i)" by simp
  with shownBefore_rank [OF assms(4)] show False by simp
qed

lemma sorted_same_level: "sorted (map rankOf (filter (\<lambda>c. risk_level c = l) cs))"
proof -
  have "rankOf c = (case order l of Some n \<Rightarrow> n | None \<Rightarrow> 4)"
    if "c \<in> set (filter (\<lambda>c. risk_level c = l) cs)" for c
    using that by (simp add: rankOf_def)
  then show ?thesis
    by (induction cs) (auto simp: rankOf_def)
qed

lemma sortedClauses_example:
  "sortedClauses exampleClauses =
     [clauseOf ''Indemnity'' True ''HIGH'', clauseOf ''Non-Compete'' True ''HIGH'',
      clauseOf ''Audit Rights'' True ''MEDIUM'', clauseOf ''Governing Law'' True ''LOW'',
      clauseOf ''Cap On Liability'' False ''NOT_FOUND'']"
  by (simp add: sortedClauses_def Array_sort_def SortCompare_def compareClauses_def order_def
      exampleClauses_def clauseOf_def)

text \<open>
  C2. For clauses whose level is HIGH, MEDIUM, LOW or NOT_FOUND, the list that
  \<^verbatim>\<open>renderClausesList\<close> displays has every clause of an earlier group before every
  clause of a later group (HIGH, MEDIUM, LOW, NOT_FOUND), keeps the clauses of one
  level in their upstream order, holds the same clauses, and is left unchanged by
  sorting it again.
\<close>

theorem sortedClauses_grouped_stable:
  assumes "\<forall>c\<in>set cs. risk_level c \<in> riskLevels"
  shows "(\<forall>i j. i < length (sortedClauses cs) \<and> j < length (sortedClauses cs) \<and>
            shownBefore (risk_level (sortedClauses cs ! i)) (risk_level (sortedClauses cs ! j))
            \<longrightarrow> i < j) \<and>
         (\<forall>l. filter (\<lambda>c. risk_level c = l) (sortedClauses cs) =
               filter (\<lambda>c. risk_level c = l) cs) \<and>
         mset (sortedClauses cs) = mset cs \<and>
         sortedClauses (sortedClauses cs) = sortedClauses cs \<and>
         (clausesList d \<noteq> None \<longrightarrow>
            clausesList (renderClausesList cs d) = Some (map createClauseElement (sortedClauses cs)))"
proof -
  have eq: "sortedClauses cs = sort_key rankOf cs"
    using assms by (rule sortedClauses_sort_key)
  have srt: "sorted (map rankOf (sortedClauses cs))"
    by (simp add: eq)
  have grouped: "\<forall>i j. i < length (sortedClauses cs) \<and> j < length (sortedClauses cs) \<and>
            shownBefore (risk_level (sortedClauses cs ! i)) (risk_level (sortedClauses cs ! j))
            \<longrightarrow> i < j"
    using sorted_rank_precedes [OF srt] by blast
  have stable: "filter (\<lambda>c. risk_level c = l) (sortedClauses cs) = filter (\<lambda>c. risk_level c = l) cs"
    for l
  proof -
    have "filter (\<lambda>c. risk_level c = l) (sort_key rankOf cs)
          = sort_key rankOf (filter (\<lambda>c. risk_level c = l) cs)"
      by (rule filter_sort)
    also have "\<dots> = filter (\<lambda>c. risk_level c = l) cs"
      by (rule sort_key_id_if_sorted) (rule sorted_same_level)
    finally show ?thesis by (simp add: eq)
  qed
  have perm: "mset (sortedClauses cs) = mset cs"
    by (simp add: eq)
  have "\<forall>c\<in>set (sortedClauses cs). risk_level c \<in> riskLevels"
    using assms by (simp add: eq)
  then have "sortedClauses (sortedClauses cs) = sort_key rankOf (sortedClauses cs)"
    by (rule sortedClauses_sort_key)
  also have "\<dots> = sortedClauses cs"
    using srt by (rule sort_key_id_if_sorted)
  finally have idem: "sortedClauses (sortedClauses cs) = sortedClauses cs" .
  have shown: "clausesList d \<noteq> None \<longrightarrow>
      clausesList (renderClausesList cs d) = Some (map createClauseElement (sortedClauses cs))"
    by (auto simp: renderClausesList_def)
  from grouped stable perm idem shown show ?thesis by blast
qed

theorem sortedClauses_grouped_stable_witness:
  "sortedClauses exampleClauses =
     [clauseOf ''Indemnity'' True ''HIGH'', clauseOf ''Non-Compete'' True ''HIGH'',
      clauseOf ''Audit Rights'' True ''MEDIUM'', clauseOf ''Governing Law'' True ''LOW'',
      clauseOf ''Cap On Liability'' False ''NOT_FOUND''] \<and>
   filter (\<lambda>c. risk_level c = ''HIGH'') (sortedClauses exampleClauses) =
     [clauseOf ''Indemnity'' True ''HIGH'', clauseOf ''Non-Compete'' True ''HIGH''] \<and>
   mset (sortedClauses exampleClauses) = mset exampleClauses \<and>
   sortedClauses (sortedClauses exampleClauses) = sortedClauses exampleClauses"
proof -
  have known: "\<forall>c\<in>set exampleClauses. risk_level c \<in> riskLevels"
    by (simp add: exampleClauses_def clauseOf_def riskLevels_def)
  have high: "filter (\<lambda>c. risk_level c = ''HIGH'') exampleClauses =
     [clauseOf ''Indemnity'' True ''HIGH'', clauseOf ''Non-Compete'' True ''HIGH'']"
    by (simp add: exampleClauses_def clauseOf_def)
  from sortedClauses_grouped_stable [OF known, of examplePage] high sortedClauses_example
  show ?thesis by metis
qed

section \<open>Filtering the displayed clauses\<close>

lemma toLowerCase_levels:
  assumes "l \<in> riskLevels"
  shows "(toLowerCase l = ''high'') = (l = ''HIGH'')"
    and "(toLowerCase l = ''medium'') = (l = ''MEDIUM'')"
    and "(toLowerCase l = ''low'') = (l = ''LOW'')"
    and "(toLowerCase l = ''not_found'') = (l = ''NOT_FOUND'')"
  using assms by (auto simp: riskLevels_def toLowerCase_def toLowerChar_def)

lemma item_of_clause:
  assumes "item\<lparr>hidden := False\<rparr> = createClauseElement c"
  shows "dataset_riskLevel item = toLowerCase (risk_level c)" and "source item = c"
proof -
  have "dataset_riskLevel (item\<lparr>hidden := False\<rparr>) = dataset_riskLevel (createClauseElement c)"
    using assms by simp
  then show "dataset_riskLevel item = toLowerCase (risk_level c)"
    by (simp add: createClauseElement_def)
  have "source (item\<lparr>hidden := False\<rparr>) = source (createClauseElement c)"
    using assms by simp
  then show "source item = c"
    by (simp add: createClauseElement_def)
qed

lemma filterItem_unhide:
  "(filterItem t item)\<lparr>hidden := False\<rparr> = item\<lparr>hidden := False\<rparr>"
  by (simp add: filterItem_def Let_def)

lemma filterItem_source: "source (filterItem t item) = source item"
  by (simp add: filterItem_def Let_def)

lemma filterItem_hidden:
  assumes "t \<in> {''all'', ''high'', ''medium'', ''low'', ''missing''}"
    and "item\<lparr>hidden := False\<rparr> = createClauseElement c"
    and "risk_level c \<in> riskLevels"
  shows "(\<not> hidden (filterItem t item)) =
         (t = ''all'' \<or> t = ''high'' \<and> risk_level c = ''HIGH'' \<or>
          t = ''medium'' \<and> risk_level c = ''MEDIUM'' \<or>
          t = ''low'' \<and> risk_level c = ''LOW'' \<or>
          t = ''missing'' \<and> risk_level c = ''NOT_FOUND'')"
  using assms(1) item_of_clause(1) [OF assms(2)] toLowerCase_levels [OF assms(3)]
  by (auto simp: filterItem_def Let_def)

lemma visible_filterItems:
  assumes "t \<in> {''all'', ''high'', ''medium'', ''low'', ''missing''}"
  shows "map (\<lambda>item. item\<lparr>hidden := False\<rparr>) items = map createClauseElement cs \<Longrightarrow>
         \<forall>c\<in>set cs. risk_level c \<in> riskLevels \<Longrightarrow>
         map source (filter (\<lambda>item. \<not> hidden item) (map (filterItem t) items)) =
         filter (\<lambda>c. t = ''all'' \<or> t = ''high'' \<and> risk_level c = ''HIGH'' \<or>
                  t = ''medium'' \<and> risk_level c = ''MEDIUM'' \<or>
                  t = ''low'' \<and> risk_level c = ''LOW'' \<or>
                  t = ''missing'' \<and> risk_level c = ''NOT_FOUND'') cs"
proof (induction items arbitrary: cs)
  case Nil
  then show ?case by simp
next
  case (Cons item items)
  then obtain c cs' where cs: "cs = c # cs'" by (cases cs) auto
  from Cons.prems cs have hd: "item\<lparr>hidden := False\<rparr> = createClauseElement c"
    and tl: "map (\<lambda>item. item\<lparr>hidden := False\<rparr>) items = map createClauseElement cs'"
    and lv: "risk_level c \<in> riskLevels" and lvs: "\<forall>c\<in>set cs'. risk_level c \<in> riskLevels"
    by simp_all
  note IH = Cons.IH [OF tl lvs]
  show ?case
    unfolding cs using IH filterItem_hidden [OF assms hd lv] item_of_clause(2) [OF hd]
    by (simp add: filterItem_source)
qed

lemma renderClausesList_displays:
  "clausesList d \<noteq> None \<Longrightarrow> displays (renderClausesList cs d) (sortedClauses cs)"
  by (auto simp: displays_def renderClausesList_def createClauseElement_def)

text \<open>
  C3. On a page that displays the clauses \<open>cs\<close> (whatever is hidden at the moment),
  \<^verbatim>\<open>filterClauses\<close> with a tag among all, high, medium, low and missing leaves
  the displayed list and its order as they are, and makes visible exactly the clauses
  that match the tag: all of them for \<^verbatim>\<open>all\<close>, those of the level for \<^verbatim>\<open>high\<close>,
  \<^verbatim>\<open>medium\<close> and \<^verbatim>\<open>low\<close>, and those of level NOT_FOUND for \<^verbatim>\<open>missing\<close>, which are
  the clauses with \<open>found = false\<close> when NOT_FOUND and \<open>found = false\<close> coincide. The
  four counts and the overall level on the page are not changed.
\<close>

theorem filterClauses_visibility:
  assumes "filter_tag \<in> {''all'', ''high'', ''medium'', ''low'', ''missing''}"
    and "displays d cs"
    and "\<forall>c\<in>set cs. risk_level c \<in> riskLevels"
  shows "displays (filterClauses filter_tag d) cs \<and>
         visibleClauses (filterClauses filter_tag d) =
           filter (\<lambda>c. filter_tag = ''all'' \<or>
                       filter_tag = ''high'' \<and> risk_level c = ''HIGH'' \<or>
                       filter_tag = ''medium'' \<and> risk_level c = ''MEDIUM'' \<or>
                       filter_tag = ''low'' \<and> risk_level c = ''LOW'' \<or>
                       filter_tag = ''missing'' \<and> risk_level c = ''NOT_FOUND'') cs \<and>
         (filter_tag = ''all'' \<longrightarrow> visibleClauses (filterClauses filter_tag d) = cs) \<and>
         (filter_tag = ''missing'' \<and> (\<forall>c\<in>set cs. (risk_level c = ''NOT_FOUND'') = (\<not> found c)) \<longrightarrow>
            visibleClauses (filterClauses filter_tag d) = filter (\<lambda>c. \<not> found c) cs) \<and>
         highRiskCount (filterClauses filter_tag d) = highRiskCount d \<and>
         mediumRiskCount (filterClauses filter_tag d) = mediumRiskCount d \<and>
         lowRiskCount (filterClauses filter_tag d) = lowRiskCount d \<and>
         missingCriticalCount (filterClauses filter_tag d) = missingCriticalCount d \<and>
         overallRiskLevel (filterClauses filter_tag d) = overallRiskLevel d"
proof -
  from assms(2) obtain items where items: "clausesList d = Some items"
    and shown: "map (\<lambda>item. item\<lparr>hidden := False\<rparr>) items = map createClauseElement cs"
    by (auto simp: displays_def split: option.splits)
  have kept: "displays (filterClauses filter_tag d) cs"
    using shown by (simp add: displays_def filterClauses_def items filterItem_unhide comp_def)
  have vis: "visibleClauses (filterClauses filter_tag d) =
           filter (\<lambda>c. filter_tag = ''all'' \<or>
                       filter_tag = ''high'' \<and> risk_level c = ''HIGH'' \<or>
                       filter_tag = ''medium'' \<and> risk_level c = ''MEDIUM'' \<or>
                       filter_tag = ''low'' \<and> risk_level c = ''LOW'' \<or>
                       filter_tag = ''missing'' \<and> risk_level c = ''NOT_FOUND'') cs"
    using visible_filterItems [OF assms(1) shown assms(3)]
    by (simp add: visibleClauses_def filterClauses_def items)
  have all: "filter_tag = ''all'' \<longrightarrow> visibleClauses (filterClauses filter_tag d) = cs"
  proof
    assume "filter_tag = ''all''"
    with vis show "visibleClauses (filterClauses filter_tag d) = cs" by simp
  qed
  have missing: "filter_tag = ''missing'' \<and> (\<forall>c\<in>set cs. (risk_level c = ''NOT_FOUND'') = (\<not> found c)) \<longrightarrow>
            visibleClauses (filterClauses filter_tag d) = filter (\<lambda>c. \<not> found c) cs"
  proof
    assume a: "filter_tag = ''missing'' \<and> (\<forall>c\<in>set cs. (risk_level c = ''NOT_FOUND'') = (\<not> found c))"
    then have inv: "filter (\<lambda>c. risk_level c = ''NOT_FOUND'') cs = filter (\<lambda>c. \<not> found c) cs"
      by (intro filter_cong) auto
    from a have t: "filter_tag = ''missing''" by simp
    have "visibleClauses (filterClauses filter_tag d) = filter (\<lambda>c. risk_level c = ''NOT_FOUND'') cs"
      using vis unfolding t by simp
    with inv show "visibleClauses (filterClauses filter_tag d) = filter (\<lambda>c. \<not> found c) cs"
      by simp
  qed
  have counts: "highRiskCount (filterClauses filter_tag d) = highRiskCount d \<and>
         mediumRiskCount (filterClauses filter_tag d) = mediumRiskCount d \<and>
         lowRiskCount (filterClauses filter_tag d) = lowRiskCount d \<and>
         missingCriticalCount (filterClauses filter_tag d) = missingCriticalCount d \<and>
         overallRiskLevel (filterClauses filter_tag d) = overallRiskLevel d"
    by (simp add: filterClauses_def)
  from kept vis all missing counts show ?thesis by blast
qed

theorem filterClauses_visibility_witness:
  "visibleClauses (filterClauses ''missing'' (filterClauses ''high'' (render exampleResult examplePage)))
     = [clauseOf ''Cap On Liability'' False ''NOT_FOUND''] \<and>
   highRiskCount (filterClauses ''missing'' (filterClauses ''high'' (render exampleResult examplePage)))
     = 2"
proof -
  let ?d = "render exampleResult examplePage"
  have known: "\<forall>c\<in>set (sortedClauses exampleClauses). risk_level c \<in> riskLevels"
    by (simp add: sortedClauses_example clauseOf_def riskLevels_def)
  have inv: "\<forall>c\<in>set (sortedClauses exampleClauses). (risk_level c = ''NOT_FOUND'') = (\<not> found c)"
    by (simp add: sortedClauses_example clauseOf_def)
  have "clausesList (renderRiskOverview exampleResult examplePage) \<noteq> None"
    by (simp add: renderRiskOverview_def examplePage_def)
  then have shown: "displays ?d (sortedClauses exampleClauses)"
    unfolding render_def using renderClausesList_displays [of _ "clauses exampleResult"]
    by (simp add: exampleResult_def)
  have high: "displays (filterClauses ''high'' ?d) (sortedClauses exampleClauses) \<and>
      highRiskCount (filterClauses ''high'' ?d) = highRiskCount ?d"
  proof -
    have tag: "''high'' \<in> {''all'', ''high'', ''medium'', ''low'', ''missing''}" by simp
    from filterClauses_visibility [OF tag shown known] show ?thesis by blast
  qed
  then have shown': "displays (filterClauses ''high'' ?d) (sortedClauses exampleClauses)" ..
  have "visibleClauses (filterClauses ''missing'' (filterClauses ''high'' ?d))
        = filter (\<lambda>c. \<not> found c) (sortedClauses exampleClauses) \<and>
      highRiskCount (filterClauses ''missing'' (filterClauses ''high'' ?d))
        = highRiskCount (filterClauses ''high'' ?d)"
  proof -
    have tag: "''missing'' \<in> {''all'', ''high'', ''medium'', ''low'', ''missing''}" by simp
    from filterClauses_visibility [OF tag shown' known] inv show ?thesis by blast
  qed
  moreover have "filter (\<lambda>c. \<not> found c) (sortedClauses exampleClauses)
      = [clauseOf ''Cap On Liability'' False ''NOT_FOUND'']"
    by (simp add: sortedClauses_example clauseOf_def)
  moreover have "highRiskCount ?d = 2"
    by (simp add: render_def renderClausesList_def renderRiskOverview_def exampleResult_def
        split: option.splits)
  ultimately show ?thesis using high by simp
qed

section \<open>Validation of the uploaded file\<close>

lemma toLowerChar_pdf:
  "(toLowerChar c = CHR ''.'') = (c = CHR ''.'')"
  "(toLowerChar c = CHR ''p'') = (c = CHR ''p'' \<or> c = CHR ''P'')"
  "(toLowerChar c = CHR ''d'') = (c = CHR ''d'' \<or> c = CHR ''D'')"
  "(toLowerChar c = CHR ''f'') = (c = CHR ''f'' \<or> c = CHR ''F'')"
  by (auto simp: toLowerChar_def split: if_splits)

lemma toLowerCase_pdf4:
  "(toLowerCase [a, b, c, d] = ''.pdf'') =
   ([a, b, c, d] \<in> set [''.pdf'', ''.pdF'', ''.pDf'', ''.pDF'', ''.Pdf'', ''.PdF'', ''.PDf'', ''.PDF''])"
  unfolding toLowerCase_def list.map list.inject toLowerChar_pdf
  by auto

lemma length4: "length t = 4 \<Longrightarrow> \<exists>a b c d. t = [a, b, c, d]"
  by (auto simp: numeral_eq_Suc length_Suc_conv)

lemma pdf_variant_length:
  "v \<in> set [''.pdf'', ''.pdF'', ''.pDf'', ''.pDF'', ''.Pdf'', ''.PdF'', ''.PDf'', ''.PDF'']
   \<Longrightarrow> length v = 4"
  by auto

text \<open>The test of the code on the file name is the extension test of the specification.\<close>

lemma endsWith_pdf: "endsWith (toLowerCase s) ''.pdf'' = hasPdfExtension s"
proof (cases "4 \<le> length s")
  case True
  define t where "t = drop (length s - 4) s"
  have "length t = 4" using True by (simp add: t_def)
  then obtain a b c d where t: "t = [a, b, c, d]" using length4 by blast
  have len: "length ''.pdf'' = 4" by simp
  have "endsWith (toLowerCase s) ''.pdf'' = (toLowerCase t = ''.pdf'')"
    unfolding endsWith_def toLowerCase_def t_def length_map drop_map len
    using True by blast
  also have "\<dots> = (t \<in> set [''.pdf'', ''.pdF'', ''.pDf'', ''.pDF'', ''.Pdf'', ''.PdF'', ''.PDf'', ''.PDF''])"
    unfolding t by (rule toLowerCase_pdf4)
  finally show ?thesis by (simp add: hasPdfExtension_def t_def)
next
  case False
  then have "\<not> endsWith (toLowerCase s) ''.pdf''"
    by (simp add: endsWith_def toLowerCase_def)
  moreover have "\<not> hasPdfExtension s"
  proof
    assume "hasPdfExtension s"
    then have "length (drop (length s - 4) s) = 4"
      unfolding hasPdfExtension_def by (rule pdf_variant_length)
    with False show False by simp
  qed
  ultimately show ?thesis by simp
qed

lemma newEvents_emit: "newEvents w (emit evs w) = evs"
  by (simp add: newEvents_def emit_def)

lemma handleFileUpload_rejects:
  assumes "\<not> hasPdfExtension (file_name f) \<or> 10 * 1024 * 1024 < file_size f"
  shows "handleFileUpload api f w = emit [ToastError ''Please upload a PDF file''] w \<or>
         handleFileUpload api f w = emit [ToastError ''File size must be less than 10MB''] w"
  using assms by (auto simp: handleFileUpload_def endsWith_pdf)

lemma handleFileUpload_accepts:
  assumes "hasPdfExtension (file_name f)" and "file_size f \<le> 10 * 1024 * 1024"
  shows "\<exists>rest. newEvents w (handleFileUpload api f w) =
           [ShowSection ''processing-section'', UpdateProcessingStep 0,
            UpdateProcessingInfo (file_name f) None, StartRotation,
            UpdateProcessingStep 1, UploadRequest f] @ rest"
  using assms
  by (auto simp: handleFileUpload_def endsWith_pdf Let_def catchUploadError_def emit_def
      newEvents_def split: sum.splits)

text \<open>
  C4. \<^verbatim>\<open>handleFileUpload\<close> rejects a file exactly when its name does not end in
  \<^verbatim>\<open>.pdf\<close> (in any case) or its size is above 10 MiB. A rejected file gets one error
  toast and nothing else: no request, no section switch, no progress step, and the state
  is what it was. An accepted file goes on to the upload request. A file
  \<^verbatim>\<open>contract.pdf\<close> of 0 bytes and a PDF of exactly 10 MiB are accepted, and
  \<^verbatim>\<open>scan.png\<close> is rejected.
\<close>

theorem handleFileUpload_validation:
  "((handleFileUpload api f w = emit [ToastError ''Please upload a PDF file''] w \<or>
     handleFileUpload api f w = emit [ToastError ''File size must be less than 10MB''] w)
    = (\<not> hasPdfExtension (file_name f) \<or> 10 * 1024 * 1024 < file_size f)) \<and>
   (list_ex isNetworkRequest (newEvents w (handleFileUpload api f w))
    = (hasPdfExtension (file_name f) \<and> file_size f \<le> 10 * 1024 * 1024)) \<and>
   (hasPdfExtension (file_name f) \<and> file_size f \<le> 10 * 1024 * 1024 \<longrightarrow>
      take 6 (newEvents w (handleFileUpload api f w)) =
        [ShowSection ''processing-section'', UpdateProcessingStep 0,
         UpdateProcessingInfo (file_name f) None, StartRotation,
         UpdateProcessingStep 1, UploadRequest f]) \<and>
   UploadRequest \<lparr>file_name = ''contract.pdf'', file_size = 0\<rparr>
     \<in> set (newEvents w (handleFileUpload api \<lparr>file_name = ''contract.pdf'', file_size = 0\<rparr> w)) \<and>
   (hasPdfExtension n \<longrightarrow>
      UploadRequest \<lparr>file_name = n, file_size = 10 * 1024 * 1024\<rparr>
        \<in> set (newEvents w
                 (handleFileUpload api \<lparr>file_name = n, file_size = 10 * 1024 * 1024\<rparr> w))) \<and>
   handleFileUpload api \<lparr>file_name = ''scan.png'', file_size = sz\<rparr> w
     = emit [ToastError ''Please upload a PDF file''] w"
proof -
  let ?valid = "hasPdfExtension (file_name f) \<and> file_size f \<le> 10 * 1024 * 1024"
  let ?w' = "handleFileUpload api f w"
  have accepted: "take 6 (newEvents w (handleFileUpload api g w)) =
        [ShowSection ''processing-section'', UpdateProcessingStep 0,
         UpdateProcessingInfo (file_name g) None, StartRotation,
         UpdateProcessingStep 1, UploadRequest g] \<and>
      UploadRequest g \<in> set (newEvents w (handleFileUpload api g w)) \<and>
      list_ex isNetworkRequest (newEvents w (handleFileUpload api g w)) \<and>
      handleFileUpload api g w \<noteq> emit [ToastError m] w"
    if "hasPdfExtension (file_name g)" and "file_size g \<le> 10 * 1024 * 1024" for g m
  proof -
    from handleFileUpload_accepts [OF that] obtain rest where
      ev: "newEvents w (handleFileUpload api g w) =
           [ShowSection ''processing-section'', UpdateProcessingStep 0,
            UpdateProcessingInfo (file_name g) None, StartRotation,
            UpdateProcessingStep 1, UploadRequest g] @ rest"
      by blast
    have "newEvents w (handleFileUpload api g w) \<noteq> newEvents w (emit [ToastError m] w)"
      unfolding ev newEvents_emit by simp
    then have "handleFileUpload api g w \<noteq> emit [ToastError m] w"
      by (rule contrapos_nn) (erule arg_cong)
    then show ?thesis
      unfolding ev by (simp add: list_ex_iff)
  qed
  have rejected: "\<not> list_ex isNetworkRequest (newEvents w ?w')" if "\<not> ?valid"
  proof -
    from that have "\<not> hasPdfExtension (file_name f) \<or> 10 * 1024 * 1024 < file_size f"
      by auto
    from handleFileUpload_rejects [OF this, of api w] show ?thesis
      by (auto simp: newEvents_emit)
  qed
  have c1: "(?w' = emit [ToastError ''Please upload a PDF file''] w \<or>
             ?w' = emit [ToastError ''File size must be less than 10MB''] w)
            = (\<not> hasPdfExtension (file_name f) \<or> 10 * 1024 * 1024 < file_size f)"
  proof (cases ?valid)
    case True
    with accepted [of f] show ?thesis by auto
  next
    case False
    then have inv: "\<not> hasPdfExtension (file_name f) \<or> 10 * 1024 * 1024 < file_size f"
      by auto
    from handleFileUpload_rejects [OF inv, of api w] inv show ?thesis by blast
  qed
  have c2: "list_ex isNetworkRequest (newEvents w ?w') = ?valid"
    using accepted [of f] rejected by blast
  have c3: "?valid \<longrightarrow> take 6 (newEvents w ?w') =
        [ShowSection ''processing-section'', UpdateProcessingStep 0,
         UpdateProcessingInfo (file_name f) None, StartRotation,
         UpdateProcessingStep 1, UploadRequest f]"
    using accepted [of f] by blast
  have pdf: "hasPdfExtension ''contract.pdf''"
    by (simp add: hasPdfExtension_def)
  have c4: "UploadRequest \<lparr>file_name = ''contract.pdf'', file_size = 0\<rparr>
     \<in> set (newEvents w (handleFileUpload api \<lparr>file_name = ''contract.pdf'', file_size = 0\<rparr> w))"
    using accepted [of "\<lparr>file_name = ''contract.pdf'', file_size = 0\<rparr>"] pdf by simp
  have c5: "hasPdfExtension n \<longrightarrow>
      UploadRequest \<lparr>file_name = n, file_size = 10 * 1024 * 1024\<rparr>
        \<in> set (newEvents w
                 (handleFileUpload api \<lparr>file_name = n, file_size = 10 * 1024 * 1024\<rparr> w))"
    using accepted [of "\<lparr>file_name = n, file_size = 10 * 1024 * 1024\<rparr>"] by simp
  have png: "\<not> endsWith (toLowerCase ''scan.png'') ''.pdf''"
    by (simp add: endsWith_pdf hasPdfExtension_def)
  have c6: "handleFileUpload api \<lparr>file_name = ''scan.png'', file_size = sz\<rparr> w
     = emit [ToastError ''Please upload a PDF file''] w"
    using png by (simp add: handleFileUpload_def)
  show ?thesis by (intro conjI c1 c2 c3 c4 c5 c6)
qed

theorem handleFileUpload_validation_witness:
  "take 6 (newEvents exampleWorld
      (handleFileUpload exampleBackend \<lparr>file_name = ''Report.PDF'', file_size = 10485760\<rparr>
         exampleWorld)) =
     [ShowSection ''processing-section'', UpdateProcessingStep 0,
      UpdateProcessingInfo ''Report.PDF'' None, StartRotation,
      UpdateProcessingStep 1, UploadRequest \<lparr>file_name = ''Report.PDF'', file_size = 10485760\<rparr>] \<and>
   \<not> list_ex isNetworkRequest (newEvents exampleWorld
      (handleFileUpload exampleBackend \<lparr>file_name = ''big.pdf'', file_size = 10485761\<rparr>
         exampleWorld)) \<and>
   handleFileUpload exampleBackend \<lparr>file_name = ''scan.png'', file_size = 1024\<rparr> exampleWorld
     = emit [ToastError ''Please upload a PDF file''] exampleWorld"
proof -
  have a: "hasPdfExtension ''Report.PDF''" and b: "hasPdfExtension ''big.pdf''"
    by (simp_all add: hasPdfExtension_def)
  from handleFileUpload_validation
    [of exampleBackend "\<lparr>file_name = ''Report.PDF'', file_size = 10485760\<rparr>" exampleWorld]
    a
  have one: "take 6 (newEvents exampleWorld
      (handleFileUpload exampleBackend \<lparr>file_name = ''Report.PDF'', file_size = 10485760\<rparr>
         exampleWorld)) =
     [ShowSection ''processing-section'', UpdateProcessingStep 0,
      UpdateProcessingInfo ''Report.PDF'' None, StartRotation,
      UpdateProcessingStep 1, UploadRequest \<lparr>file_name = ''Report.PDF'', file_size = 10485760\<rparr>]"
    by simp
  from handleFileUpload_validation
    [of exampleBackend "\<lparr>file_name = ''big.pdf'', file_size = 10485761\<rparr>" exampleWorld]
    b
  have two: "\<not> list_ex isNetworkRequest (newEvents exampleWorld
      (handleFileUpload exampleBackend \<lparr>file_name = ''big.pdf'', file_size = 10485761\<rparr>
         exampleWorld))"
    by simp
  from handleFileUpload_validation
    [of exampleBackend "\<lparr>file_name = ''scan.png'', file_size = 1024\<rparr>" exampleWorld
      "''scan.png''" 1024]
  have three: "handleFileUpload exampleBackend \<lparr>file_name = ''scan.png'', file_size = 1024\<rparr>
      exampleWorld = emit [ToastError ''Please upload a PDF file''] exampleWorld"
    by (elim conjE)
  show ?thesis by (intro conjI one two three)
qed

section \<open>Progress reporting\<close>

lemma handleFileUpload_success_events:
  assumes "hasPdfExtension (file_name f)" and "file_size f \<le> 10 * 1024 * 1024"
    and "uploadFile api f = Inr up" and "extractClauses api (doc_id up) = Inr res"
  shows "newEvents w (handleFileUpload api f w) =
           [ShowSection ''processing-section'', UpdateProcessingStep 0,
            UpdateProcessingInfo (file_name f) None, StartRotation,
            UpdateProcessingStep 1, UploadRequest f,
            UpdateProcessingInfo (uploaded_filename up) (Some (num_pages up)),
            ToastSuccess ''File uploaded successfully'', Delay 1000,
            UpdateProcessingStep 2, Delay 2000,
            UpdateProcessingStep 3, ExtractRequest (doc_id up),
            UpdateProcessingStep 4, Delay 2000,
            UpdateProcessingStep 5, Delay 1000,
            StopRotation, ToastSuccess ''Analysis complete!'',
            ShowSection ''dashboard-section'', DashboardRender]"
  using assms
  by (simp add: handleFileUpload_def endsWith_pdf Let_def emit_def newEvents_def)

lemma steps_of_success:
  "stepsEmitted
     [ShowSection a, UpdateProcessingStep 0, UpdateProcessingInfo b None, StartRotation,
      UpdateProcessingStep 1, UploadRequest f, UpdateProcessingInfo c p, ToastSuccess d,
      Delay t1, UpdateProcessingStep 2, Delay t2, UpdateProcessingStep 3, ExtractRequest e,
      UpdateProcessingStep 4, Delay t3, UpdateProcessingStep 5, Delay t4, StopRotation,
      ToastSuccess g, ShowSection h, DashboardRender] = [0, 1, 2, 3, 4, 5]"
  by (simp add: stepsEmitted_def List.map_filter_simps)

text \<open>
  C7, as the code has it. In a successful run (a valid file, the upload and the
  extraction both answered) \<^verbatim>\<open>handleFileUpload\<close> calls \<^verbatim>\<open>updateProcessingStep\<close> with
  0 first, when it shows the processing section, and then with 1, 2, 3, 4, 5: the
  indices are strictly increasing with no repeat and no omission. Each call reports the
  width \<open>step / 5 * 100\<close>, so the percentages 0, 20, 40, 60, 80, 100 never decrease and
  no value between two of them is reported.
\<close>

theorem handleFileUpload_progress:
  assumes "hasPdfExtension (file_name f)" and "file_size f \<le> 10 * 1024 * 1024"
    and "uploadFile api f = Inr up" and "extractClauses api (doc_id up) = Inr res"
  shows "stepsEmitted (newEvents w (handleFileUpload api f w)) = [0, 1, 2, 3, 4, 5] \<and>
         percentagesReported (newEvents w (handleFileUpload api f w)) = [0, 20, 40, 60, 80, 100] \<and>
         sorted (percentagesReported (newEvents w (handleFileUpload api f w))) \<and>
         width (updateProcessingStep n) = real n / 5 * 100"
proof -
  have steps: "stepsEmitted (newEvents w (handleFileUpload api f w)) = [0, 1, 2, 3, 4, 5]"
    unfolding handleFileUpload_success_events [OF assms] by (rule steps_of_success)
  have pct: "percentagesReported (newEvents w (handleFileUpload api f w)) = [0, 20, 40, 60, 80, 100]"
    unfolding percentagesReported_def steps by (simp add: updateProcessingStep_def)
  have "sorted (percentagesReported (newEvents w (handleFileUpload api f w)))"
    unfolding pct by simp
  moreover have "width (updateProcessingStep n) = real n / 5 * 100"
    by (simp add: updateProcessingStep_def)
  ultimately show ?thesis using steps pct by (intro conjI)
qed

lemma example_run:
  "hasPdfExtension (file_name \<lparr>file_name = ''msa.pdf'', file_size = 2097152\<rparr>)"
  "file_size \<lparr>file_name = ''msa.pdf'', file_size = 2097152\<rparr> \<le> 10 * 1024 * 1024"
  "uploadFile exampleBackend \<lparr>file_name = ''msa.pdf'', file_size = 2097152\<rparr>
     = Inr \<lparr>doc_id = ''d1'', uploaded_filename = ''msa.pdf'', num_pages = 12\<rparr>"
  "extractClauses exampleBackend
     (doc_id \<lparr>doc_id = ''d1'', uploaded_filename = ''msa.pdf'', num_pages = 12\<rparr>) = Inr exampleResult"
  by (simp_all add: hasPdfExtension_def exampleBackend_def)

theorem handleFileUpload_progress_witness:
  "stepsEmitted (newEvents exampleWorld
     (handleFileUpload exampleBackend \<lparr>file_name = ''msa.pdf'', file_size = 2097152\<rparr> exampleWorld))
     = [0, 1, 2, 3, 4, 5] \<and>
   percentagesReported (newEvents exampleWorld
     (handleFileUpload exampleBackend \<lparr>file_name = ''msa.pdf'', file_size = 2097152\<rparr> exampleWorld))
     = [0, 20, 40, 60, 80, 100]"
  using handleFileUpload_progress [OF example_run, of exampleWorld 0] by simp

text \<open>
  The claim as worded gives the emitted indices as 1, 2, 3, 4, 5. The successful run of
  \<^verbatim>\<open>msa.pdf\<close> (2 MiB) emits 0 before them.
\<close>

theorem handleFileUpload_progress_counterexample:
  "ToastSuccess ''Analysis complete!'' \<in> set (newEvents exampleWorld
     (handleFileUpload exampleBackend \<lparr>file_name = ''msa.pdf'', file_size = 2097152\<rparr> exampleWorld)) \<and>
   stepsEmitted (newEvents exampleWorld
     (handleFileUpload exampleBackend \<lparr>file_name = ''msa.pdf'', file_size = 2097152\<rparr> exampleWorld))
     \<noteq> [1, 2, 3, 4, 5]"
  unfolding handleFileUpload_success_events [OF example_run] steps_of_success
  by simp

section \<open>Starting a new analysis\<close>

text \<open>
  C9, as the code has it. \<^verbatim>\<open>resetApplication\<close> sets a newly generated session
  identifier, unbinds the document, drops the extraction result and puts the filter
  back to \<^verbatim>\<open>all\<close>. It sends no request, and it leaves the chat panel and
  \<^verbatim>\<open>Chat.isProcessing\<close> as they are.
\<close>

theorem resetApplication_state:
  "currentSessionId (APP_STATE (resetApplication now random36 w))
     = Some (generateSessionId now random36) \<and>
   \<not> falsy (currentSessionId (APP_STATE (resetApplication now random36 w))) \<and>
   currentDocId (APP_STATE (resetApplication now random36 w)) = None \<and>
   extractionData (APP_STATE (resetApplication now random36 w)) = None \<and>
   currentFilter (APP_STATE (resetApplication now random36 w)) = ''all'' \<and>
   chatMessages (document (resetApplication now random36 w)) = chatMessages (document w) \<and>
   isProcessing (resetApplication now random36 w) = isProcessing w \<and>
   newEvents w (resetApplication now random36 w)
     = [ShowSection ''upload-section'', ToastInfo ''Ready for new analysis'']"
  by (simp add: resetApplication_def emit_def newEvents_def falsy_def generateSessionId_def)

theorem resetApplication_state_witness:
  "currentSessionId (APP_STATE (resetApplication 1700000000000 ''0.4fzyo82mvyr'' chattingWorld))
     = Some ''session_1700000000000_4fzyo82mv'' \<and>
   currentDocId (APP_STATE (resetApplication 1700000000000 ''0.4fzyo82mvyr'' chattingWorld)) = None"
proof -
  have "generateSessionId 1700000000000 ''0.4fzyo82mvyr'' = ''session_1700000000000_4fzyo82mv''"
    by (simp add: generateSessionId_def decimal.simps)
  with resetApplication_state [of 1700000000000 "''0.4fzyo82mvyr''" chattingWorld]
  show ?thesis by simp
qed

text \<open>
  The claim as worded has the chat history cleared by \<^verbatim>\<open>resetApplication\<close>. With two
  messages in the chat panel, they are still there after it, and no request was sent
  that would delete the history of the session.
\<close>

theorem resetApplication_state_counterexample:
  "chatMessages (document (resetApplication 1700000000000 ''0.4fzyo82mvyr'' chattingWorld))
     = Some [Message ''user'' (utf16 ''Hello'') [], Message ''ai'' (utf16 ''Hi'') []] \<and>
   \<not> list_ex isNetworkRequest
       (newEvents chattingWorld (resetApplication 1700000000000 ''0.4fzyo82mvyr'' chattingWorld))"
  by (simp add: resetApplication_def emit_def newEvents_def chattingWorld_def exampleWorld_def
      examplePage_def)

section \<open>Sending a chat message\<close>

lemma sendMessage_busy:
  assumes "isProcessing w"
  shows "snd (sendMessage w) = None"
    and "fst (sendMessage w) = w \<or>
         fst (sendMessage w) = emit [ToastError ''Please enter a question''] w \<or>
         fst (sendMessage w) = emit [ToastError ''No document loaded''] w"
  using assms
  by (auto simp: sendMessage_def Let_def split: option.splits)

lemma sendMessage_accepts:
  assumes "chatInput (document w) = Some v" and "sendBtn (document w) = Some b"
    and "trim v \<noteq> []" and "\<not> falsy (currentDocId (APP_STATE w))" and "\<not> isProcessing w"
  shows "snd (sendMessage w) = Some (fst (addTypingIndicator
           ((addMessage (trim v) ''user'' [] ((document w)\<lparr>sendBtn := Some True\<rparr>))
              \<lparr>chatInput := Some []\<rparr>)))"
    and "newEvents w (fst (sendMessage w)) =
           [ChatRequest (currentSessionId (APP_STATE w)) (currentDocId (APP_STATE w)) (trim v)]"
    and "isProcessing (fst (sendMessage w))"
  using assms
  by (simp_all add: sendMessage_def Let_def emit_def newEvents_def case_prod_unfold)

lemma sendMessage_accepted_only:
  assumes "snd (sendMessage w) \<noteq> None"
  shows "(\<exists>q. chatInput (document w) = Some q \<and> trim q \<noteq> []) \<and>
         \<not> falsy (currentDocId (APP_STATE w)) \<and> \<not> isProcessing w \<and>
         isProcessing (fst (sendMessage w))"
  using assms
  by (auto simp: sendMessage_def Let_def emit_def case_prod_unfold
      split: option.splits if_splits)

lemma sendMessage_resume_fields:
  "isProcessing (sendMessage_resume typingId response w) = False"
  "chatInput (document (sendMessage_resume typingId response w)) = chatInput (document w)"
  "sendBtn (document (sendMessage_resume typingId response w))
     = map_option (\<lambda>old. False) (sendBtn (document w))"
  "APP_STATE (sendMessage_resume typingId response w) = APP_STATE w"
  by (auto simp: sendMessage_resume_def Let_def emit_def addMessage_def
      removeTypingIndicator_def split: sum.splits option.splits)

lemma sendMessage_invalid:
  assumes "chatInput (document w) = Some v" and "sendBtn (document w) = Some b"
    and "trim v = [] \<or> falsy (currentDocId (APP_STATE w))"
  shows "snd (sendMessage w) = None"
    and "fst (sendMessage w) =
           emit [ToastError (if trim v = [] then ''Please enter a question''
                              else ''No document loaded'')] w"
  using assms
  by (auto simp: sendMessage_def Let_def split: option.splits)

lemma emit_fields:
  "document (emit evs w) = document w"
  "isProcessing (emit evs w) = isProcessing w"
  "APP_STATE (emit evs w) = APP_STATE w"
  by (simp_all add: emit_def)

lemma pendingWorld_fields:
  "isProcessing pendingWorld"
  "chatInput (document pendingWorld) = Some (utf16 ''And the notice period?'')"
  "sendBtn (document pendingWorld) = Some True"
  "currentDocId (APP_STATE pendingWorld) = Some ''d1''"
  "currentSessionId (APP_STATE pendingWorld) = Some ''session_1_abc''"
  by (simp_all add: pendingWorld_def sendMessage_def chattingWorld_def exampleWorld_def
      examplePage_def Let_def trim_def isWhiteSpace_def utf16_def falsy_def emit_def
      addMessage_def addTypingIndicator_def)

lemma trim_example:
  "trim (utf16 ''And the notice period?'') = utf16 ''And the notice period?''"
  by (simp add: trim_def isWhiteSpace_def utf16_def)

text \<open>
  C5. While \<^verbatim>\<open>Chat.isProcessing\<close> is set, a call of \<^verbatim>\<open>sendMessage\<close> returns at
  once: it sends no request, appends nothing to the transcript, keeps nothing for
  later (the state is the one before, or that with one validation toast), and the flag
  stays set. A call that does send a request sets the flag. When the request settles,
  with an answer or with an error, the flag is cleared, and a call made then, with a
  question typed and a document bound, sends its request.
\<close>

theorem sendMessage_single_flight:
  "(isProcessing w \<longrightarrow>
      snd (sendMessage w) = None \<and>
      (fst (sendMessage w) = w \<or>
       fst (sendMessage w) = emit [ToastError ''Please enter a question''] w \<or>
       fst (sendMessage w) = emit [ToastError ''No document loaded''] w) \<and>
      \<not> list_ex isNetworkRequest (newEvents w (fst (sendMessage w))) \<and>
      chatMessages (document (fst (sendMessage w))) = chatMessages (document w) \<and>
      isProcessing (fst (sendMessage w))) \<and>
   (snd (sendMessage w) \<noteq> None \<longrightarrow> \<not> isProcessing w \<and> isProcessing (fst (sendMessage w))) \<and>
   isProcessing (sendMessage_resume typingId response w) = False \<and>
   (chatInput (document w) = Some v \<and> trim v \<noteq> [] \<and> sendBtn (document w) = Some b \<and>
    \<not> falsy (currentDocId (APP_STATE w)) \<longrightarrow>
      snd (sendMessage (sendMessage_resume typingId response w)) \<noteq> None \<and>
      newEvents (sendMessage_resume typingId response w)
        (fst (sendMessage (sendMessage_resume typingId response w)))
        = [ChatRequest (currentSessionId (APP_STATE w)) (currentDocId (APP_STATE w)) (trim v)])"
proof -
  have busy: "isProcessing w \<longrightarrow>
      snd (sendMessage w) = None \<and>
      (fst (sendMessage w) = w \<or>
       fst (sendMessage w) = emit [ToastError ''Please enter a question''] w \<or>
       fst (sendMessage w) = emit [ToastError ''No document loaded''] w) \<and>
      \<not> list_ex isNetworkRequest (newEvents w (fst (sendMessage w))) \<and>
      chatMessages (document (fst (sendMessage w))) = chatMessages (document w) \<and>
      isProcessing (fst (sendMessage w))"
  proof
    assume p: "isProcessing w"
    note cases = sendMessage_busy(2) [OF p]
    have "newEvents w w = []" by (simp add: newEvents_def)
    with cases have "\<not> list_ex isNetworkRequest (newEvents w (fst (sendMessage w)))"
      by (auto simp: newEvents_emit)
    moreover from cases have "chatMessages (document (fst (sendMessage w))) = chatMessages (document w)"
      by (auto simp: emit_fields)
    moreover from cases p have "isProcessing (fst (sendMessage w))"
      by (auto simp: emit_fields)
    ultimately show "snd (sendMessage w) = None \<and>
      (fst (sendMessage w) = w \<or>
       fst (sendMessage w) = emit [ToastError ''Please enter a question''] w \<or>
       fst (sendMessage w) = emit [ToastError ''No document loaded''] w) \<and>
      \<not> list_ex isNetworkRequest (newEvents w (fst (sendMessage w))) \<and>
      chatMessages (document (fst (sendMessage w))) = chatMessages (document w) \<and>
      isProcessing (fst (sendMessage w))"
      using sendMessage_busy(1) [OF p] cases by (intro conjI)
  qed
  have sets: "snd (sendMessage w) \<noteq> None \<longrightarrow> \<not> isProcessing w \<and> isProcessing (fst (sendMessage w))"
    using sendMessage_accepted_only [of w] by blast
  have cleared: "isProcessing (sendMessage_resume typingId response w) = False"
    by (rule sendMessage_resume_fields)
  have again: "chatInput (document w) = Some v \<and> trim v \<noteq> [] \<and> sendBtn (document w) = Some b \<and>
    \<not> falsy (currentDocId (APP_STATE w)) \<longrightarrow>
      snd (sendMessage (sendMessage_resume typingId response w)) \<noteq> None \<and>
      newEvents (sendMessage_resume typingId response w)
        (fst (sendMessage (sendMessage_resume typingId response w)))
        = [ChatRequest (currentSessionId (APP_STATE w)) (currentDocId (APP_STATE w)) (trim v)]"
  proof
    let ?w' = "sendMessage_resume typingId response w"
    assume a: "chatInput (document w) = Some v \<and> trim v \<noteq> [] \<and> sendBtn (document w) = Some b \<and>
      \<not> falsy (currentDocId (APP_STATE w))"
    then have i: "chatInput (document ?w') = Some v" and s: "sendBtn (document ?w') = Some False"
      and t: "trim v \<noteq> []" and d: "\<not> falsy (currentDocId (APP_STATE ?w'))"
      and f: "\<not> isProcessing ?w'"
      by (simp_all add: sendMessage_resume_fields)
    from sendMessage_accepts(1) [OF i s t d f] sendMessage_accepts(2) [OF i s t d f]
    show "snd (sendMessage ?w') \<noteq> None \<and>
      newEvents ?w' (fst (sendMessage ?w'))
        = [ChatRequest (currentSessionId (APP_STATE w)) (currentDocId (APP_STATE w)) (trim v)]"
      by (simp add: sendMessage_resume_fields)
  qed
  show ?thesis by (intro conjI busy sets cleared again)
qed

theorem sendMessage_single_flight_witness:
  "snd (sendMessage pendingWorld) = None \<and>
   \<not> list_ex isNetworkRequest (newEvents pendingWorld (fst (sendMessage pendingWorld))) \<and>
   newEvents (sendMessage_resume (Some ''typing-indicator'') (Inl ''Chat request failed'') pendingWorld)
     (fst (sendMessage
        (sendMessage_resume (Some ''typing-indicator'') (Inl ''Chat request failed'') pendingWorld)))
     = [ChatRequest (Some ''session_1_abc'') (Some ''d1'') (utf16 ''And the notice period?'')]"
proof -
  note inst = sendMessage_single_flight
    [of pendingWorld "Some ''typing-indicator''" "Inl ''Chat request failed''"
      "utf16 ''And the notice period?''" True]
  have doc: "\<not> falsy (currentDocId (APP_STATE pendingWorld))"
    by (simp add: pendingWorld_fields falsy_def)
  from inst pendingWorld_fields(1)
  have one: "snd (sendMessage pendingWorld) = None \<and>
     \<not> list_ex isNetworkRequest (newEvents pendingWorld (fst (sendMessage pendingWorld)))"
    by blast
  have typed: "trim (utf16 ''And the notice period?'') \<noteq> []"
    unfolding trim_example by (simp add: utf16_def)
  from inst pendingWorld_fields(2,3) doc typed
  have two: "newEvents (sendMessage_resume (Some ''typing-indicator'') (Inl ''Chat request failed'') pendingWorld)
     (fst (sendMessage
        (sendMessage_resume (Some ''typing-indicator'') (Inl ''Chat request failed'') pendingWorld)))
     = [ChatRequest (currentSessionId (APP_STATE pendingWorld))
          (currentDocId (APP_STATE pendingWorld)) (trim (utf16 ''And the notice period?''))]"
    by simp
  from one two show ?thesis
    by (simp add: pendingWorld_fields trim_example)
qed

lemma trim_Nil_iff: "(trim v = []) = list_all isWhiteSpace v"
proof
  assume "trim v = []"
  then have "\<forall>c\<in>set (dropWhile isWhiteSpace v). isWhiteSpace c"
    by (simp add: trim_def)
  then have "dropWhile isWhiteSpace v = []"
    using hd_dropWhile [of isWhiteSpace v] hd_in_set [of "dropWhile isWhiteSpace v"] by blast
  then show "list_all isWhiteSpace v"
    by (simp add: list_all_iff)
next
  assume "list_all isWhiteSpace v"
  then have dw: "dropWhile isWhiteSpace v = []"
    by (simp add: list_all_iff)
  show "trim v = []"
    unfolding trim_def dw by simp
qed

lemma blank_example: "trim [0x20, 0xA0, 0x3000, 0xFEFF, 0x2028, 0x09] = []"
  by (simp add: trim_def isWhiteSpace_def)

lemma hi_example: "trim (utf16 ''Hi?'') \<noteq> []"
  by (simp add: trim_def isWhiteSpace_def utf16_def)

text \<open>
  C8. With the input field and the send button on the page, \<^verbatim>\<open>sendMessage\<close> on a
  query that is empty after trimming (each of its code units is white space or a line
  terminator of ECMAScript, the no-break space and the other Unicode spaces included),
  or with no document bound, shows a validation toast and returns: no request is sent,
  nothing is appended to the transcript and nothing else changes. A call that sends a
  request had a non-empty trimmed query and a bound document.
\<close>

theorem sendMessage_validation:
  "(chatInput (document w) = Some v \<and> sendBtn (document w) = Some b \<and>
    (trim v = [] \<or> falsy (currentDocId (APP_STATE w))) \<longrightarrow>
      snd (sendMessage w) = None \<and>
      fst (sendMessage w) =
        emit [ToastError (if trim v = [] then ''Please enter a question''
                           else ''No document loaded'')] w \<and>
      \<not> list_ex isNetworkRequest (newEvents w (fst (sendMessage w))) \<and>
      chatMessages (document (fst (sendMessage w))) = chatMessages (document w)) \<and>
   (snd (sendMessage w) \<noteq> None \<longrightarrow>
      (\<exists>q. chatInput (document w) = Some q \<and> trim q \<noteq> []) \<and>
      \<not> falsy (currentDocId (APP_STATE w))) \<and>
   (trim v = []) = list_all isWhiteSpace v \<and>
   isWhiteSpace 0x20 \<and> isWhiteSpace 0x09 \<and> isWhiteSpace 0x0A \<and> isWhiteSpace 0x0D \<and>
   isWhiteSpace 0xA0 \<and> isWhiteSpace 0x3000 \<and> isWhiteSpace 0x2028 \<and> isWhiteSpace 0xFEFF"
proof -
  have rejected: "chatInput (document w) = Some v \<and> sendBtn (document w) = Some b \<and>
    (trim v = [] \<or> falsy (currentDocId (APP_STATE w))) \<longrightarrow>
      snd (sendMessage w) = None \<and>
      fst (sendMessage w) =
        emit [ToastError (if trim v = [] then ''Please enter a question''
                           else ''No document loaded'')] w \<and>
      \<not> list_ex isNetworkRequest (newEvents w (fst (sendMessage w))) \<and>
      chatMessages (document (fst (sendMessage w))) = chatMessages (document w)"
  proof
    assume a: "chatInput (document w) = Some v \<and> sendBtn (document w) = Some b \<and>
      (trim v = [] \<or> falsy (currentDocId (APP_STATE w)))"
    then have i: "chatInput (document w) = Some v" and s: "sendBtn (document w) = Some b"
      and c: "trim v = [] \<or> falsy (currentDocId (APP_STATE w))"
      by simp_all
    note r = sendMessage_invalid [OF i s c]
    have "\<not> list_ex isNetworkRequest (newEvents w (fst (sendMessage w)))"
      unfolding r(2) newEvents_emit by simp
    moreover have "chatMessages (document (fst (sendMessage w))) = chatMessages (document w)"
      unfolding r(2) emit_fields ..
    ultimately show "snd (sendMessage w) = None \<and>
      fst (sendMessage w) =
        emit [ToastError (if trim v = [] then ''Please enter a question''
                           else ''No document loaded'')] w \<and>
      \<not> list_ex isNetworkRequest (newEvents w (fst (sendMessage w))) \<and>
      chatMessages (document (fst (sendMessage w))) = chatMessages (document w)"
      using r by (intro conjI)
  qed
  have accepted: "snd (sendMessage w) \<noteq> None \<longrightarrow>
      (\<exists>q. chatInput (document w) = Some q \<and> trim q \<noteq> []) \<and>
      \<not> falsy (currentDocId (APP_STATE w))"
    using sendMessage_accepted_only [of w] by blast
  have spaces: "isWhiteSpace 0x20" "isWhiteSpace 0x09" "isWhiteSpace 0x0A" "isWhiteSpace 0x0D"
    "isWhiteSpace 0xA0" "isWhiteSpace 0x3000" "isWhiteSpace 0x2028" "isWhiteSpace 0xFEFF"
    by (simp_all add: isWhiteSpace_def)
  show ?thesis by (intro conjI rejected accepted trim_Nil_iff spaces)
qed

theorem sendMessage_validation_witness:
  "sendMessage (chattingWorld\<lparr>document := (document chattingWorld)
       \<lparr>chatInput := Some [0x20, 0xA0, 0x3000, 0xFEFF, 0x2028, 0x09]\<rparr>\<rparr>)
     = (emit [ToastError ''Please enter a question'']
          (chattingWorld\<lparr>document := (document chattingWorld)
             \<lparr>chatInput := Some [0x20, 0xA0, 0x3000, 0xFEFF, 0x2028, 0x09]\<rparr>\<rparr>),
        None) \<and>
   sendMessage (exampleWorld\<lparr>document := (document exampleWorld)\<lparr>chatInput := Some (utf16 ''Hi?'')\<rparr>\<rparr>)
     = (emit [ToastError ''No document loaded'']
          (exampleWorld\<lparr>document := (document exampleWorld)\<lparr>chatInput := Some (utf16 ''Hi?'')\<rparr>\<rparr>),
        None)"
proof -
  let ?blank = "chattingWorld\<lparr>document := (document chattingWorld)
       \<lparr>chatInput := Some [0x20, 0xA0, 0x3000, 0xFEFF, 0x2028, 0x09]\<rparr>\<rparr>"
  let ?nodoc = "exampleWorld\<lparr>document := (document exampleWorld)\<lparr>chatInput := Some (utf16 ''Hi?'')\<rparr>\<rparr>"
  have b: "chatInput (document ?blank) = Some [0x20, 0xA0, 0x3000, 0xFEFF, 0x2028, 0x09]"
    "sendBtn (document ?blank) = Some False"
    by (simp_all add: chattingWorld_def exampleWorld_def examplePage_def)
  have n: "chatInput (document ?nodoc) = Some (utf16 ''Hi?'')" "sendBtn (document ?nodoc) = Some False"
    "falsy (currentDocId (APP_STATE ?nodoc))"
    by (simp_all add: exampleWorld_def examplePage_def falsy_def)
  from sendMessage_validation [of ?blank "[0x20, 0xA0, 0x3000, 0xFEFF, 0x2028, 0x09]" False]
    b blank_example
  have one: "snd (sendMessage ?blank) = None \<and>
      fst (sendMessage ?blank) = emit [ToastError ''Please enter a question''] ?blank"
    by simp
  from sendMessage_validation [of ?nodoc "utf16 ''Hi?''" False] n hi_example
  have two: "snd (sendMessage ?nodoc) = None \<and>
      fst (sendMessage ?nodoc) = emit [ToastError ''No document loaded''] ?nodoc"
    by simp
  from one two show ?thesis
    by (simp add: prod_eq_iff)
qed

section \<open>Clearing the chat\<close>

text \<open>
  C6. With a session identifier set, \<^verbatim>\<open>clearChat\<close> first sends the deletion request
  for that identifier and changes nothing on the page. When the request has succeeded,
  the transcript is replaced by the welcome block. When it has failed, the page at that
  moment is left exactly as it is and the error toast is shown.
\<close>

theorem clearChat_remote_first:
  "(currentSessionId (APP_STATE w) = Some sessionId \<and> sessionId \<noteq> [] \<longrightarrow>
      clearChat w = (emit [ClearSessionRequest sessionId] w, True)) \<and>
   document (fst (clearChat w)) = document w \<and>
   (chatMessages (document w') \<noteq> None \<longrightarrow>
      chatMessages (document (clearChat_resume (Inr ack) w')) = Some [Welcome]) \<and>
   newEvents w' (clearChat_resume (Inr ack) w') = [ToastSuccess ''Chat cleared''] \<and>
   clearChat_resume (Inl err) w' = emit [ToastError ''Failed to clear chat''] w' \<and>
   document (clearChat_resume (Inl err) w') = document w' \<and>
   chatMessages (document (clearChat_resume (Inl err) w')) = chatMessages (document w') \<and>
   newEvents w' (clearChat_resume (Inl err) w') = [ToastError ''Failed to clear chat'']"
  by (auto simp: clearChat_def clearChat_resume_def emit_def newEvents_def split: option.splits)

theorem clearChat_remote_first_witness:
  "clearChat chattingWorld = (emit [ClearSessionRequest ''session_1_abc''] chattingWorld, True) \<and>
   chatMessages (document (clearChat_resume (Inl ''Failed to clear chat session'')
      (fst (clearChat chattingWorld))))
     = Some [Message ''user'' (utf16 ''Hello'') [], Message ''ai'' (utf16 ''Hi'') []] \<and>
   chatMessages (document (clearChat_resume (Inr ()) (fst (clearChat chattingWorld))))
     = Some [Welcome]"
proof -
  have s: "currentSessionId (APP_STATE chattingWorld) = Some ''session_1_abc''"
    and m: "chatMessages (document chattingWorld)
              = Some [Message ''user'' (utf16 ''Hello'') [], Message ''ai'' (utf16 ''Hi'') []]"
    by (simp_all add: chattingWorld_def exampleWorld_def examplePage_def)
  note inst = clearChat_remote_first [of chattingWorld "''session_1_abc''"
      "fst (clearChat chattingWorld)" "()" "''Failed to clear chat session''"]
  from inst s have sent: "clearChat chattingWorld
      = (emit [ClearSessionRequest ''session_1_abc''] chattingWorld, True)"
    by simp
  from inst have "document (fst (clearChat chattingWorld)) = document chattingWorld"
    by (elim conjE)
  with m have shown: "chatMessages (document (fst (clearChat chattingWorld)))
      = Some [Message ''user'' (utf16 ''Hello'') [], Message ''ai'' (utf16 ''Hi'') []]"
    by simp
  from inst have "chatMessages (document (clearChat_resume (Inl ''Failed to clear chat session'')
      (fst (clearChat chattingWorld)))) = chatMessages (document (fst (clearChat chattingWorld)))"
    by (elim conjE)
  with shown have failed: "chatMessages (document (clearChat_resume
      (Inl ''Failed to clear chat session'') (fst (clearChat chattingWorld))))
      = Some [Message ''user'' (utf16 ''Hello'') [], Message ''ai'' (utf16 ''Hi'') []]"
    by simp
  from inst shown have cleared: "chatMessages (document (clearChat_resume (Inr ())
      (fst (clearChat chattingWorld)))) = Some [Welcome]"
    by simp
  show ?thesis by (intro conjI sent failed cleared)
qed

end
